theory Spec2Isabelle
  imports Main "HOL-Library.Sublist"
begin

section \<open>The Deskly OAuth relay (server.js)\<close>

text \<open>
  The development embeds the request handlers and helpers of \<^verbatim>\<open>src/server.js\<close>:
  \<^verbatim>\<open>esc\<close>, \<^verbatim>\<open>signToken\<close>, \<^verbatim>\<open>verifyToken\<close>, the handlers of
  \<^verbatim>\<open>GET /auth/callback\<close> and \<^verbatim>\<open>GET /api/me\<close>, and the two page templates.

  Conventions.
  \<^item> A JavaScript string is a \<open>string\<close> holding its UTF-8 bytes, so the check mark of the
    desktop page is the three bytes \<open>E2 9C 93\<close>.
  \<^item> A value that may be \<^verbatim>\<open>undefined\<close> or \<^verbatim>\<open>null\<close> is an \<open>option\<close>; \<open>truthy\<close> is
    JavaScript's test \<^verbatim>\<open>if (x)\<close> on such a value.
  \<^item> A query parameter, a cookie and a header of a request are strings when they are there:
    \<open>cookies req\<close> is \<^verbatim>\<open>req.cookies\<close> and \<open>authorization req\<close> is
    \<^verbatim>\<open>req.headers.authorization\<close>, as the handlers read them.
  \<^item> What the handlers call outside this repository (\<^verbatim>\<open>JSON.parse\<close>, the
    \<^verbatim>\<open>jsonwebtoken\<close> package, the Unicode string primitives, the WorkOS code exchange) is a
    parameter: the record \<open>lib\<close> and the function \<open>provider\<close>. Theorems hold for every
    choice of them, under the hypotheses they state. The clock (\<^verbatim>\<open>Date.now()\<close>, in
    seconds) is a parameter too.
  \<^item> A handler returns a \<open>result\<close>: the response (status, cookie directives, body)
    together with the list of provider exchanges made and of tokens signed.
  \<^item> The rate limiter and the other middleware in front of the handlers are not modelled.
\<close>

subsection \<open>JavaScript values\<close>

fun truthy :: "string option \<Rightarrow> bool" where
  "truthy None = False"
| "truthy (Some s) = (s \<noteq> [])"

text \<open>
  The result of \<^verbatim>\<open>JSON.parse\<close>, and \<open>Undefined\<close> for a property that is not there. Of a
  number the handlers only ever test whether it is zero.
\<close>

datatype jsval =
    Undefined
  | Null
  | Bool bool
  | Number int
  | String string
  | Array "jsval list"
  | Object "(string \<times> jsval) list"

fun js_truthy :: "jsval \<Rightarrow> bool" where
  "js_truthy Undefined = False"
| "js_truthy Null = False"
| "js_truthy (Bool b) = b"
| "js_truthy (Number n) = (n \<noteq> 0)"
| "js_truthy (String s) = (s \<noteq> [])"
| "js_truthy (Array xs) = True"
| "js_truthy (Object kvs) = True"

text \<open>
  Reading the property \<^verbatim>\<open>parsed.k\<close> for one of the keys \<^verbatim>\<open>n\<close>, \<^verbatim>\<open>source\<close>,
  \<^verbatim>\<open>device_id\<close>: a TypeError (\<open>None\<close>) on \<^verbatim>\<open>null\<close>, \<open>Undefined\<close> where the value has
  no such property.
\<close>

fun get_prop :: "jsval \<Rightarrow> string \<Rightarrow> jsval option" where
  "get_prop Undefined k = None"
| "get_prop Null k = None"
| "get_prop (Object kvs) k = (case map_of kvs k of None \<Rightarrow> Some Undefined | Some v \<Rightarrow> Some v)"
| "get_prop v k = Some Undefined"

text \<open>\<^verbatim>\<open>a || b\<close> on values.\<close>

definition js_or :: "jsval \<Rightarrow> jsval \<Rightarrow> jsval" where
  "js_or a b = (if js_truthy a then a else b)"

subsection \<open>Identity claims, token payload, environment\<close>

text \<open>The user object returned by the provider (WorkOS \<^verbatim>\<open>User\<close>).\<close>

record user =
  user_id :: string
  user_email :: string
  firstName :: "string option"
  lastName :: "string option"
  profilePictureUrl :: "string option"

text \<open>The payload handed to \<^verbatim>\<open>jwt.sign\<close>, and the claims \<^verbatim>\<open>jwt.verify\<close> returns.\<close>

record payload =
  sub :: string
  email :: string
  name :: string
  picture :: "string option"

record claims = payload +
  iat :: nat
  exp :: nat

datatype jwt_error = JsonWebTokenError | TokenExpiredError | NotBeforeError

text \<open>
  The external functions. \<open>JSON_parse\<close> is \<open>None\<close> where \<^verbatim>\<open>JSON.parse\<close> throws.
  \<open>jwt_sign p key ttl clock\<close> is \<^verbatim>\<open>jwt.sign(p, key, {expiresIn: ttl})\<close> at the clock
  reading \<open>clock\<close> (seconds); \<open>jwt_verify token key clock\<close> is \<^verbatim>\<open>jwt.verify(token, key)\<close>,
  \<open>Inl\<close> the error it throws.
\<close>

record lib =
  JSON_parse :: "string \<Rightarrow> jsval option"
  jwt_sign :: "payload \<Rightarrow> string \<Rightarrow> nat \<Rightarrow> nat \<Rightarrow> string"
  jwt_verify :: "string \<Rightarrow> string \<Rightarrow> nat \<Rightarrow> jwt_error + claims"
  charAt :: "string \<Rightarrow> nat \<Rightarrow> string"
  toUpperCase :: "string \<Rightarrow> string"

text \<open>
  The variables of \<^verbatim>\<open>process.env\<close> that the handlers read, and the constants computed from
  them when the module is loaded. (With \<^verbatim>\<open>NODE_ENV=production\<close> and no \<^verbatim>\<open>JWT_SECRET\<close> the
  process exits before any handler is installed.)
\<close>

record env =
  NODE_ENV :: "string option"
  DESKTOP_SCHEME :: "string option"
  JWT_SECRET :: "string option"
  WORKOS_CLIENT_ID :: "string option"

definition isProduction :: "env \<Rightarrow> bool" where
  "isProduction e \<longleftrightarrow> NODE_ENV e = Some ''production''"

definition desktopScheme :: "env \<Rightarrow> string" where
  "desktopScheme e = (if truthy (DESKTOP_SCHEME e) then the (DESKTOP_SCHEME e) else ''deskly'')"

definition JWT_KEY :: "env \<Rightarrow> string" where
  "JWT_KEY e = (if truthy (JWT_SECRET e) then the (JWT_SECRET e) else ''dev-secret-change-me'')"

subsection \<open>Helpers\<close>

definition replace_all :: "char \<Rightarrow> string \<Rightarrow> string \<Rightarrow> string" where
  "replace_all c r s = concat (map (\<lambda>x. if x = c then r else [x]) s)"

definition esc :: "string \<Rightarrow> string" where
  \<open>esc str =
     (if str = [] then []
      else replace_all (CHR 0x27) ''&#39;''
            (replace_all (CHR 0x22) ''&quot;''
              (replace_all CHR ''>'' ''&gt;''
                (replace_all CHR ''<'' ''&lt;''
                  (replace_all CHR ''&'' ''&amp;'' str)))))\<close>

text \<open>\<^verbatim>\<open>s.split('@')[0]\<close>\<close>

definition split_first :: "char \<Rightarrow> string \<Rightarrow> string" where
  "split_first c s = takeWhile (\<lambda>x. x \<noteq> c) s"

text \<open>\<^verbatim>\<open>'30d'\<close> as \<^verbatim>\<open>jsonwebtoken\<close> reads a time span: thirty days, in seconds.\<close>

definition expiresIn :: nat where
  "expiresIn = 30 * 24 * 60 * 60"

definition token_payload :: "user \<Rightarrow> payload" where
  "token_payload u =
     \<lparr> sub = user_id u,
       email = user_email u,
       name = (if truthy (firstName u)
               then the (firstName u) @ (if truthy (lastName u) then '' '' @ the (lastName u) else [])
               else split_first CHR ''@'' (user_email u)),
       picture = (if truthy (profilePictureUrl u) then profilePictureUrl u else None) \<rparr>"

definition signToken :: "lib \<Rightarrow> env \<Rightarrow> nat \<Rightarrow> user \<Rightarrow> string" where
  "signToken L cfg clock u = jwt_sign L (token_payload u) (JWT_KEY cfg) expiresIn clock"

definition verifyToken :: "lib \<Rightarrow> env \<Rightarrow> nat \<Rightarrow> string \<Rightarrow> claims option" where
  "verifyToken L cfg clock token =
     (case jwt_verify L token (JWT_KEY cfg) clock of
        Inl e \<Rightarrow> None
      | Inr c \<Rightarrow> Some c)"

text \<open>
  \<^verbatim>\<open>encodeURIComponent\<close> on UTF-8 bytes: the unreserved characters stay, every other byte
  becomes \<^verbatim>\<open>%XX\<close>.
\<close>

definition unreserved :: "char \<Rightarrow> bool" where
  \<open>unreserved c \<longleftrightarrow>
     c \<in> set (''ABCDEFGHIJKLMNOPQRSTUVWXYZabcdefghijklmnopqrstuvwxyz0123456789-_.!~*()'' @ [CHR 0x27])\<close>

definition hex_digit :: "nat \<Rightarrow> char" where
  "hex_digit n = ''0123456789ABCDEF'' ! (n mod 16)"

definition percent :: "char \<Rightarrow> string" where
  "percent c = [CHR ''%'', hex_digit (of_char c div 16), hex_digit (of_char c mod 16)]"

definition encodeURIComponent :: "string \<Rightarrow> string" where
  "encodeURIComponent s = concat (map (\<lambda>c. if unreserved c then [c] else percent c) s)"

subsection \<open>HTML templates\<close>

text \<open>
  The template literal of \<^verbatim>\<open>desktopCallbackPage\<close>, cut at its six interpolations; the
  head (up to \<^verbatim>\<open></head>\<close>) is kept apart from the body.
\<close>

definition desktop_head :: string where
  \<open>desktop_head =
     ''<!DOCTYPE html>\<newline>'' @
     ''<html lang="en">\<newline>'' @
     ''<head>\<newline>'' @
     ''    <meta charset="UTF-8" />\<newline>'' @
     ''    <meta name="viewport" content="width=device-width, initial-scale=1" />\<newline>'' @
     ''    <title>Signed In '' @ [CHR 0xE2, CHR 0x80, CHR 0x94] @ '' Deskly</title>\<newline>'' @
     ''    <style>\<newline>'' @
     ''        * { margin:0; padding:0; box-sizing:border-box; }\<newline>'' @
     ''        body {\<newline>'' @
     ''            font-family: '' @ [CHR 0x27] @ ''Inter'' @ [CHR 0x27] @ '', system-ui, -apple-system, sans-serif;\<newline>'' @
     ''            background: #020617;\<newline>'' @
     ''            color: #E8E6EB;\<newline>'' @
     ''            display: flex;\<newline>'' @
     ''            align-items: center;\<newline>'' @
     ''            justify-content: center;\<newline>'' @
     ''            min-height: 100vh;\<newline>'' @
     ''        }\<newline>'' @
     ''        .card {\<newline>'' @
     ''            background: #0F1117;\<newline>'' @
     ''            border: 1px solid rgba(148,163,184,0.15);\<newline>'' @
     ''            border-radius: 20px;\<newline>'' @
     ''            padding: 40px 32px;\<newline>'' @
     ''            max-width: 440px;\<newline>'' @
     ''            width: 100%;\<newline>'' @
     ''            text-align: center;\<newline>'' @
     ''        }\<newline>'' @
     ''        .check { font-size: 48px; margin-bottom: 16px; }\<newline>'' @
     ''        h1 { font-size: 1.5rem; margin-bottom: 8px; font-weight: 600; }\<newline>'' @
     ''        .email { color: #818CF8; font-weight: 500; }\<newline>'' @
     ''        .hint { color: #6b7280; margin: 16px 0 24px; line-height: 1.5; font-size: 0.9rem; }\<newline>'' @
     ''        .btn {\<newline>'' @
     ''            display: inline-block;\<newline>'' @
     ''            padding: 12px 28px;\<newline>'' @
     ''            border-radius: 999px;\<newline>'' @
     ''            border: none;\<newline>'' @
     ''            background: linear-gradient(135deg, #818CF8, #6366F1);\<newline>'' @
     ''            color: white;\<newline>'' @
     ''            font-weight: 600;\<newline>'' @
     ''            font-size: 0.95rem;\<newline>'' @
     ''            cursor: pointer;\<newline>'' @
     ''            text-decoration: none;\<newline>'' @
     ''        }\<newline>'' @
     ''        .btn:hover { filter: brightness(1.08); }\<newline>'' @
     ''        .manual { margin-top: 16px; font-size: 0.8rem; color: #4b5563; }\<newline>'' @
     ''        .manual a { color: #818CF8; }\<newline>'' @
     ''    </style>\<newline>'' @
     ''</head>\<newline>''\<close>

definition desktop_body_0 :: string where
  \<open>desktop_body_0 =
     ''<body>\<newline>'' @
     ''    <div class="card">\<newline>'' @
     ''        <div class="check">'' @ [CHR 0xE2, CHR 0x9C, CHR 0x93] @ ''</div>\<newline>'' @
     ''        <h1>Welcome, ''\<close>

definition desktop_body_1 :: string where
  \<open>desktop_body_1 =
     ''!</h1>\<newline>'' @
     ''        <p class="email">''\<close>

definition desktop_body_2 :: string where
  \<open>desktop_body_2 =
     ''</p>\<newline>'' @
     ''        <p class="hint">You'' @ [CHR 0x27] @ ''re all set. Click below to return to the Deskly app.</p>\<newline>'' @
     ''        <a href="''\<close>

definition desktop_body_3 :: string where
  \<open>desktop_body_3 =
     ''" class="btn">Open Deskly App</a>\<newline>'' @
     ''        <p class="manual">\<newline>'' @
     ''            Button not working? <a href="''\<close>

definition desktop_body_4 :: string where
  \<open>desktop_body_4 =
     ''">Click here</a> or copy this link:<br/>\<newline>'' @
     ''            <code style="font-size:0.7rem;color:#6b7280;word-break:break-all;">''\<close>

definition desktop_body_5 :: string where
  \<open>desktop_body_5 =
     ''</code>\<newline>'' @
     ''        </p>\<newline>'' @
     ''    </div>\<newline>'' @
     ''    <script>\<newline>'' @
     ''        // Auto-redirect to the deep link\<newline>'' @
     ''        setTimeout(() => { window.location.href = "''\<close>

definition desktop_body_6 :: string where
  \<open>desktop_body_6 =
     ''"; }, 1500);\<newline>'' @
     ''    </script>\<newline>'' @
     ''</body>\<newline>'' @
     ''</html>''\<close>

definition desktopCallbackPage :: "user \<Rightarrow> string \<Rightarrow> string" where
  "desktopCallbackPage u deepLink =
     (let displayName =
            (if truthy (firstName u)
             then the (firstName u) @ (if truthy (lastName u) then '' '' @ the (lastName u) else [])
             else user_email u)
      in desktop_head @ desktop_body_0 @ esc displayName @
         desktop_body_1 @ esc (user_email u) @
         desktop_body_2 @ esc deepLink @
         desktop_body_3 @ esc deepLink @
         desktop_body_4 @ esc deepLink @
         desktop_body_5 @ esc deepLink @
         desktop_body_6)"

text \<open>
  The template literal of \<^verbatim>\<open>accountPage\<close>; its argument is the claims object that
  \<^verbatim>\<open>verifyToken\<close> returned.
\<close>

definition account_head :: string where
  \<open>account_head =
     ''<!DOCTYPE html>\<newline>'' @
     ''<html lang="en">\<newline>'' @
     ''<head>\<newline>'' @
     ''    <meta charset="UTF-8" />\<newline>'' @
     ''    <meta name="viewport" content="width=device-width, initial-scale=1" />\<newline>'' @
     ''    <title>Account '' @ [CHR 0xE2, CHR 0x80, CHR 0x94] @ '' Deskly</title>\<newline>'' @
     ''    <style>\<newline>'' @
     ''        * { margin:0; padding:0; box-sizing:border-box; }\<newline>'' @
     ''        body {\<newline>'' @
     ''            font-family: '' @ [CHR 0x27] @ ''Inter'' @ [CHR 0x27] @ '', system-ui, -apple-system, sans-serif;\<newline>'' @
     ''            background: #020617;\<newline>'' @
     ''            color: #E8E6EB;\<newline>'' @
     ''            display: flex;\<newline>'' @
     ''            align-items: center;\<newline>'' @
     ''            justify-content: center;\<newline>'' @
     ''            min-height: 100vh;\<newline>'' @
     ''        }\<newline>'' @
     ''        .card {\<newline>'' @
     ''            background: #0F1117;\<newline>'' @
     ''            border: 1px solid rgba(148,163,184,0.15);\<newline>'' @
     ''            border-radius: 20px;\<newline>'' @
     ''            padding: 40px 32px;\<newline>'' @
     ''            max-width: 440px;\<newline>'' @
     ''            width: 100%;\<newline>'' @
     ''        }\<newline>'' @
     ''        .avatar {\<newline>'' @
     ''            width: 64px; height: 64px;\<newline>'' @
     ''            border-radius: 50%;\<newline>'' @
     ''            background: linear-gradient(135deg, #818CF8, #6366F1);\<newline>'' @
     ''            display: flex; align-items: center; justify-content: center;\<newline>'' @
     ''            font-size: 1.5rem; font-weight: 700; color: white;\<newline>'' @
     ''            margin-bottom: 16px;\<newline>'' @
     ''        }\<newline>'' @
     ''        .avatar img { width: 100%; height: 100%; border-radius: 50%; object-fit: cover; }\<newline>'' @
     ''        h1 { font-size: 1.4rem; font-weight: 600; margin-bottom: 4px; }\<newline>'' @
     ''        .email { color: #A8A5B0; margin-bottom: 24px; }\<newline>'' @
     ''        .info-row {\<newline>'' @
     ''            display: flex; justify-content: space-between; align-items: center;\<newline>'' @
     ''            padding: 12px 0;\<newline>'' @
     ''            border-top: 1px solid rgba(148,163,184,0.1);\<newline>'' @
     ''        }\<newline>'' @
     ''        .info-label { color: #6b7280; font-size: 0.9rem; }\<newline>'' @
     ''        .info-value { font-weight: 500; }\<newline>'' @
     ''        .btn-logout {\<newline>'' @
     ''            display: block; width: 100%; margin-top: 24px;\<newline>'' @
     ''            padding: 12px 0; border-radius: 12px; border: 1px solid #EF4444;\<newline>'' @
     ''            background: transparent; color: #EF4444; font-weight: 600;\<newline>'' @
     ''            cursor: pointer; font-size: 0.95rem;\<newline>'' @
     ''        }\<newline>'' @
     ''        .btn-logout:hover { background: rgba(239,68,68,0.1); }\<newline>'' @
     ''    </style>\<newline>'' @
     ''</head>\<newline>''\<close>

definition account_body_0 :: string where
  \<open>account_body_0 =
     ''<body>\<newline>'' @
     ''    <div class="card">\<newline>'' @
     ''        <div class="avatar">\<newline>'' @
     ''            ''\<close>

definition account_body_1 :: string where
  \<open>account_body_1 =
     ''\<newline>'' @
     ''        </div>\<newline>'' @
     ''        <h1>''\<close>

definition account_body_2 :: string where
  \<open>account_body_2 =
     ''</h1>\<newline>'' @
     ''        <p class="email">''\<close>

definition account_body_3 :: string where
  \<open>account_body_3 =
     ''</p>\<newline>'' @
     ''        <div class="info-row">\<newline>'' @
     ''            <span class="info-label">User ID</span>\<newline>'' @
     ''            <span class="info-value" style="font-size:0.8rem;color:#6b7280;">''\<close>

definition account_body_4 :: string where
  \<open>account_body_4 =
     ''</span>\<newline>'' @
     ''        </div>\<newline>'' @
     ''        <div class="info-row">\<newline>'' @
     ''            <span class="info-label">Auth Provider</span>\<newline>'' @
     ''            <span class="info-value">WorkOS</span>\<newline>'' @
     ''        </div>\<newline>'' @
     ''        <form action="/auth/logout" method="post">\<newline>'' @
     ''            <button type="submit" class="btn-logout">Sign Out</button>\<newline>'' @
     ''        </form>\<newline>'' @
     ''    </div>\<newline>'' @
     ''</body>\<newline>'' @
     ''</html>''\<close>

definition avatar_img_0 :: string where
  \<open>avatar_img_0 =
     ''<img src="''\<close>

definition avatar_img_1 :: string where
  \<open>avatar_img_1 =
     ''" alt="avatar" />''\<close>

definition accountPage :: "lib \<Rightarrow> claims \<Rightarrow> string" where
  \<open>accountPage L c =
     account_head @ account_body_0 @
     (if truthy (picture c)
      then avatar_img_0 @ esc (the (picture c)) @ avatar_img_1
      else esc (let initial = toUpperCase L (charAt L (name c) 0)
                in if initial \<noteq> [] then initial else ''?'')) @
     account_body_1 @ esc (if name c \<noteq> [] then name c else ''Deskly User'') @
     account_body_2 @ esc (email c) @
     account_body_3 @ esc (sub c) @
     account_body_4\<close>

text \<open>
  The error handler that \<^verbatim>\<open>next(err)\<close> reaches; \<open>msg\<close> is \<^verbatim>\<open>err.message\<close>.
\<close>

definition error_page_0 :: string where
  \<open>error_page_0 =
     ''\<newline>'' @
     ''        <div style="font-family:system-ui;background:#020617;color:#e5e7eb;display:flex;align-items:center;justify-content:center;min-height:100vh;">\<newline>'' @
     ''            <div style="text-align:center;">\<newline>'' @
     ''                <h1 style="color:#EF4444;">Something went wrong</h1>\<newline>'' @
     ''                <p style="color:#6b7280;margin-top:8px;">''\<close>

definition error_page_1 :: string where
  \<open>error_page_1 =
     ''</p>\<newline>'' @
     ''                <a href="/" style="color:#818CF8;margin-top:16px;display:inline-block;">Go Home</a>\<newline>'' @
     ''            </div>\<newline>'' @
     ''        </div>\<newline>'' @
     ''    ''\<close>

definition errorHandler :: "env \<Rightarrow> string \<Rightarrow> string" where
  \<open>errorHandler cfg msg =
     (let safeMessage =
            (if isProduction cfg
             then ''An unexpected error occurred. Please try again later.''
             else esc (if msg \<noteq> [] then msg else ''Unknown error''))
      in error_page_0 @ safeMessage @ error_page_1)\<close>

subsection \<open>Requests and responses\<close>

record request =
  query_code :: "string option"
  query_state :: "string option"
  cookies :: "string \<Rightarrow> string option"
  authorization :: "string option"

record cookie_options =
  httpOnly :: bool
  secure :: bool
  sameSite :: "string option"
  maxAge :: "nat option"
  path :: "string option"

datatype cookie_header =
    Set_Cookie string string cookie_options
  | Clear_Cookie string cookie_options

datatype body =
    Send string
  | Redirect string
  | Json_error string
  | Json_user claims

text \<open>
  \<open>exchanges\<close> lists the codes passed to \<^verbatim>\<open>authenticateWithCode\<close>, \<open>issued\<close> the tokens
  that \<^verbatim>\<open>signToken\<close> produced, in the order of the calls.
\<close>

record result =
  status :: nat
  cookies_out :: "cookie_header list"
  body :: body
  exchanges :: "string list"
  issued :: "string list"

subsection \<open>GET /auth/callback\<close>

record flow_context =
  source :: jsval
  device_id :: jsval

datatype nonce_check = Mismatch | Checked flow_context

text \<open>
  The inner \<^verbatim>\<open>try\<close> block. A \<^verbatim>\<open>SyntaxError\<close> of \<^verbatim>\<open>JSON.parse\<close> and a
  \<^verbatim>\<open>TypeError\<close> of a property read are caught and leave the default context; the
  \<^verbatim>\<open>return\<close> of the mismatch leaves the handler. \<^verbatim>\<open>parsed.n\<close> is read only when the
  cookie is there (\<^verbatim>\<open>||\<close> short-circuits).
\<close>

definition read_state :: "lib \<Rightarrow> request \<Rightarrow> nonce_check" where
  "read_state L req =
     (let dflt = \<lparr> source = String ''desktop'', device_id = Null \<rparr>
      in if \<not> truthy (query_state req) then Checked dflt
         else case JSON_parse L (the (query_state req)) of
             None \<Rightarrow> Checked dflt
           | Some parsed \<Rightarrow>
               (let savedNonce = cookies req ''oauth_nonce''
                in if \<not> truthy savedNonce then Mismatch
                   else case get_prop parsed ''n'' of
                       None \<Rightarrow> Checked dflt
                     | Some n \<Rightarrow>
                         if n \<noteq> String (the savedNonce) then Mismatch
                         else (case (get_prop parsed ''source'', get_prop parsed ''device_id'') of
                                 (Some s, Some d) \<Rightarrow>
                                   Checked \<lparr> source = js_or s (String ''desktop''),
                                             device_id = js_or d Null \<rparr>
                               | _ \<Rightarrow> Checked dflt)))"

definition csrf_message :: string where
  \<open>csrf_message =
     ''OAuth state mismatch '' @ [CHR 0xE2, CHR 0x80, CHR 0x94] @
     '' possible CSRF. Please try signing in again.''\<close>

definition nonce_clear :: cookie_header where
  "nonce_clear =
     Clear_Cookie ''oauth_nonce''
       \<lparr> httpOnly = False, secure = False, sameSite = None, maxAge = None,
         path = Some ''/auth/callback'' \<rparr>"

definition session_cookie :: "env \<Rightarrow> string \<Rightarrow> cookie_header" where
  "session_cookie cfg token =
     Set_Cookie ''deskly_token'' token
       \<lparr> httpOnly = True, secure = isProduction cfg, sameSite = Some ''lax'',
         maxAge = Some (30 * 24 * 60 * 60 * 1000), path = None \<rparr>"

text \<open>
  \<open>provider clientId code\<close> is the call
  \<^verbatim>\<open>getWorkOS().userManagement.authenticateWithCode({clientId, code})\<close>: \<open>Inr\<close> the user, or
  \<open>Inl\<close> the message of the error it throws, which the outer \<^verbatim>\<open>catch\<close> hands to the
  error handler (status 500). Cookie directives already placed on the response stay on it.
\<close>

definition auth_callback ::
  "lib \<Rightarrow> env \<Rightarrow> (string option \<Rightarrow> string \<Rightarrow> string + user) \<Rightarrow> nat \<Rightarrow> request \<Rightarrow> result" where
  "auth_callback L cfg provider clock req =
     (if \<not> truthy (query_code req) then
        \<lparr> status = 400, cookies_out = [],
          body = Send ''Missing authorization code from WorkOS'',
          exchanges = [], issued = [] \<rparr>
      else case read_state L req of
          Mismatch \<Rightarrow>
            \<lparr> status = 403, cookies_out = [], body = Send csrf_message,
              exchanges = [], issued = [] \<rparr>
        | Checked context \<Rightarrow>
            (let code = the (query_code req)
             in case provider (WORKOS_CLIENT_ID cfg) code of
                 Inl msg \<Rightarrow>
                   \<lparr> status = 500, cookies_out = [nonce_clear],
                     body = Send (errorHandler cfg msg),
                     exchanges = [code], issued = [] \<rparr>
               | Inr u \<Rightarrow>
                   (let token = signToken L cfg clock u;
                        hs = [nonce_clear, session_cookie cfg token]
                    in if source context = String ''web'' then
                         \<lparr> status = 302, cookies_out = hs, body = Redirect ''/account'',
                           exchanges = [code], issued = [token] \<rparr>
                       else
                         (let deepLink = desktopScheme cfg @ ''://auth/callback?token='' @
                                         encodeURIComponent token
                          in \<lparr> status = 200, cookies_out = hs,
                               body = Send (desktopCallbackPage u deepLink),
                               exchanges = [code], issued = [token] \<rparr>))))"

subsection \<open>GET /api/me\<close>

definition bearer_or_cookie :: "request \<Rightarrow> string option" where
  "bearer_or_cookie req =
     (if (case authorization req of None \<Rightarrow> False | Some h \<Rightarrow> prefix ''Bearer '' h)
      then Some (drop 7 (the (authorization req)))
      else if truthy (cookies req ''deskly_token'') then cookies req ''deskly_token''
      else None)"

definition api_me :: "lib \<Rightarrow> env \<Rightarrow> nat \<Rightarrow> request \<Rightarrow> result" where
  "api_me L cfg clock req =
     (let token = bearer_or_cookie req
      in if \<not> truthy token then
           \<lparr> status = 401, cookies_out = [], body = Json_error ''Missing token'',
             exchanges = [], issued = [] \<rparr>
         else case verifyToken L cfg clock (the token) of
             None \<Rightarrow>
               \<lparr> status = 401, cookies_out = [], body = Json_error ''Invalid or expired token'',
                 exchanges = [], issued = [] \<rparr>
           | Some u \<Rightarrow>
               \<lparr> status = 200, cookies_out = [], body = Json_user u,
                 exchanges = [], issued = [] \<rparr>)"

section \<open>Notions used in the properties\<close>

text \<open>
  The characters that open or close a tag or an attribute value. The \<open>skeleton\<close> of a page
  is what is left of it when every other character is dropped.
\<close>

definition markup :: "char \<Rightarrow> bool" where
  \<open>markup c \<longleftrightarrow> c = CHR ''<'' \<or> c = CHR ''>'' \<or> c = CHR 0x22 \<or> c = CHR 0x27\<close>

definition skeleton :: "string \<Rightarrow> string" where
  "skeleton s = filter markup s"

text \<open>
  The HTML-escaped form of a string: each of \<^verbatim>\<open>&\<close>, \<^verbatim>\<open><\<close>, \<^verbatim>\<open>>\<close>, \<^verbatim>\<open>"\<close>, \<^verbatim>\<open>'\<close>
  is replaced by its entity, and every other character stays.
\<close>

definition entity :: "char \<Rightarrow> string" where
  \<open>entity c =
     (if c = CHR ''&'' then ''&amp;''
      else if c = CHR ''<'' then ''&lt;''
      else if c = CHR ''>'' then ''&gt;''
      else if c = CHR 0x22 then ''&quot;''
      else if c = CHR 0x27 then ''&#39;''
      else [c])\<close>

definition html_escaped :: "string \<Rightarrow> string" where
  "html_escaped s = concat (map entity s)"

text \<open>
  What the handlers rely on from \<^verbatim>\<open>jsonwebtoken\<close>.
  \<^item> A token signed with a non-empty key at time \<open>t\<close> for \<open>ttl\<close> seconds verifies under the
    same key to its payload, with \<^verbatim>\<open>iat\<close> and \<^verbatim>\<open>exp\<close> added, at every clock reading
    before \<open>t + ttl\<close>, and is refused as expired from then on.
  \<^item> Under any other key it is refused (\<^verbatim>\<open>invalid signature\<close>): the HMAC is taken as
    unforgeable.
  \<^item> A string that does not consist of three parts separated by two dots is refused
    (\<^verbatim>\<open>jwt malformed\<close>).
\<close>

definition jwt_contract :: "lib \<Rightarrow> bool" where
  "jwt_contract L \<longleftrightarrow>
     (\<forall>p key ttl t now.
        key \<noteq> [] \<longrightarrow>
        jwt_verify L (jwt_sign L p key ttl t) key now =
          (if now < t + ttl
           then Inr \<lparr> sub = sub p, email = email p, name = name p, picture = picture p,
                      iat = t, exp = t + ttl \<rparr>
           else Inl TokenExpiredError))
     \<and> (\<forall>p key key' ttl t now.
          key \<noteq> [] \<longrightarrow> key' \<noteq> [] \<longrightarrow> key' \<noteq> key \<longrightarrow>
          jwt_verify L (jwt_sign L p key ttl t) key' now = Inl JsonWebTokenError)
     \<and> (\<forall>token key now.
          length (filter (\<lambda>c. c = CHR ''.'') token) \<noteq> 2 \<longrightarrow>
          jwt_verify L token key now = Inl JsonWebTokenError)"

text \<open>
  Reading a percent-encoded string back, as the receiver of the deep link does with its
  \<^verbatim>\<open>token\<close> parameter; \<open>None\<close> where a \<^verbatim>\<open>%\<close> is not followed by two hexadecimal digits.
\<close>

definition digit_val :: "char \<Rightarrow> nat option" where
  "digit_val c =
     map_of (zip ''0123456789ABCDEF'' [0, 1, 2, 3, 4, 5, 6, 7, 8, 9, 10, 11, 12, 13, 14, 15]) c"


section \<open>Reference implementations of the external functions\<close>

text \<open>
  To run the handlers on concrete requests the parameters need values. The definitions of
  this section are such values: a parser for a fragment of JSON (no \<^verbatim>\<open>\u\<close> escapes, integer
  numbers only), a token format with the interface of \<^verbatim>\<open>jsonwebtoken\<close>, and the string
  primitives on ASCII. They stand in for the real functions in examples only; no theorem
  about the handlers depends on them.
\<close>

subsection \<open>A JSON parser\<close>

definition ws :: "char \<Rightarrow> bool" where
  "ws c \<longleftrightarrow> c = CHR '' '' \<or> c = CHR 0x0A \<or> c = CHR 0x0D \<or> c = CHR 0x09"

definition skip_ws :: "string \<Rightarrow> string" where
  "skip_ws = dropWhile ws"

definition unescape :: "char \<Rightarrow> char option" where
  \<open>unescape e =
     (if e = CHR 0x22 \<or> e = CHR 0x5C \<or> e = CHR ''/'' then Some e
      else if e = CHR ''b'' then Some (CHR 0x08)
      else if e = CHR ''f'' then Some (CHR 0x0C)
      else if e = CHR ''n'' then Some (CHR 0x0A)
      else if e = CHR ''r'' then Some (CHR 0x0D)
      else if e = CHR ''t'' then Some (CHR 0x09)
      else None)\<close>

text \<open>The characters of a string literal, after its opening quote, and the rest of the input.\<close>

fun parse_chars :: "string \<Rightarrow> (string \<times> string) option" where
  "parse_chars [] = None"
| "parse_chars [c] = (if c = CHR 0x22 then Some ([], []) else None)"
| "parse_chars (c # e # r) =
     (if c = CHR 0x22 then Some ([], e # r)
      else if c = CHR 0x5C then
        (case unescape e of
           None \<Rightarrow> None
         | Some x \<Rightarrow> map_option (\<lambda>(s, t). (x # s, t)) (parse_chars r))
      else if (of_char c :: nat) < 32 then None
      else map_option (\<lambda>(s, t). (c # s, t)) (parse_chars (e # r)))"

definition is_digit :: "char \<Rightarrow> bool" where
  "is_digit c \<longleftrightarrow> 48 \<le> (of_char c :: nat) \<and> (of_char c :: nat) \<le> 57"

definition number :: "string \<Rightarrow> nat" where
  "number s = foldl (\<lambda>a c. 10 * a + (of_char c - 48)) 0 s"

text \<open>An integer literal: an optional minus sign, then \<^verbatim>\<open>0\<close> or digits that do not start with \<^verbatim>\<open>0\<close>.\<close>

definition parse_int :: "string \<Rightarrow> (jsval \<times> string) option" where
  \<open>parse_int s =
     (let neg = (s \<noteq> [] \<and> hd s = CHR ''-'');
          t = (if neg then tl s else s);
          ds = takeWhile is_digit t;
          r = dropWhile is_digit t
      in if ds = [] \<or> (length ds > 1 \<and> hd ds = CHR ''0'') then None
         else if r \<noteq> [] \<and> (hd r = CHR ''.'' \<or> hd r = CHR ''e'' \<or> hd r = CHR ''E'') then None
         else Some (Number (if neg then - int (number ds) else int (number ds)), r))\<close>

text \<open>
  The first argument bounds the nesting depth and the number of elements; the length of the
  input is always enough. A later member of an object overrides an earlier one with the
  same key, so it is placed in front.
\<close>

fun parse_value :: "nat \<Rightarrow> string \<Rightarrow> (jsval \<times> string) option"
  and parse_elements :: "nat \<Rightarrow> string \<Rightarrow> (jsval list \<times> string) option"
  and parse_members :: "nat \<Rightarrow> string \<Rightarrow> ((string \<times> jsval) list \<times> string) option" where
  "parse_value 0 s = None"
| "parse_value (Suc f) s =
     (if prefix ''null'' s then Some (Null, drop 4 s)
      else if prefix ''true'' s then Some (Bool True, drop 4 s)
      else if prefix ''false'' s then Some (Bool False, drop 5 s)
      else if s = [] then None
      else if hd s = CHR 0x22 then map_option (\<lambda>(x, t). (String x, t)) (parse_chars (tl s))
      else if hd s = CHR ''['' then
        (let r = skip_ws (tl s)
         in if r \<noteq> [] \<and> hd r = CHR '']'' then Some (Array [], tl r)
            else map_option (\<lambda>(vs, t). (Array vs, t)) (parse_elements f r))
      else if hd s = CHR ''{'' then
        (let r = skip_ws (tl s)
         in if r \<noteq> [] \<and> hd r = CHR ''}'' then Some (Object [], tl r)
            else map_option (\<lambda>(kvs, t). (Object kvs, t)) (parse_members f r))
      else parse_int s)"
| "parse_elements 0 s = None"
| "parse_elements (Suc f) s =
     (case parse_value f s of
        None \<Rightarrow> None
      | Some (v, r) \<Rightarrow>
          (let r' = skip_ws r
           in if r' = [] then None
              else if hd r' = CHR '']'' then Some ([v], tl r')
              else if hd r' = CHR '','' then
                map_option (\<lambda>(vs, t). (v # vs, t)) (parse_elements f (skip_ws (tl r')))
              else None))"
| "parse_members 0 s = None"
| "parse_members (Suc f) s =
     (if s = [] \<or> hd s \<noteq> CHR 0x22 then None
      else case parse_chars (tl s) of
          None \<Rightarrow> None
        | Some (k, r1) \<Rightarrow>
            (let r2 = skip_ws r1
             in if r2 = [] \<or> hd r2 \<noteq> CHR '':'' then None
                else case parse_value f (skip_ws (tl r2)) of
                    None \<Rightarrow> None
                  | Some (v, r3) \<Rightarrow>
                      (let r4 = skip_ws r3
                       in if r4 = [] then None
                          else if hd r4 = CHR ''}'' then Some ([(k, v)], tl r4)
                          else if hd r4 = CHR '','' then
                            map_option (\<lambda>(kvs, t). (kvs @ [(k, v)], t))
                              (parse_members f (skip_ws (tl r4)))
                          else None)))"

definition ref_JSON_parse :: "string \<Rightarrow> jsval option" where
  "ref_JSON_parse s =
     (case parse_value (length s) (skip_ws s) of
        None \<Rightarrow> None
      | Some (v, r) \<Rightarrow> if skip_ws r = [] then Some v else None)"

subsection \<open>A token format\<close>

text \<open>
  A token has three parts joined by dots, as a JSON Web Token has: a fixed header, a body,
  and a keyed check value over header and body, which stands for the HMAC. The body holds
  subject, email, name and picture, each in hexadecimal, and the two times in decimal,
  joined by commas.
\<close>

definition hex :: "string \<Rightarrow> string" where
  "hex s = concat (map (\<lambda>c. [hex_digit (of_char c div 16), hex_digit (of_char c mod 16)]) s)"

fun unhex :: "string \<Rightarrow> string option" where
  "unhex [] = Some []"
| "unhex [a] = None"
| "unhex (a # b # r) =
     (case (digit_val a, digit_val b, unhex r) of
        (Some x, Some y, Some s) \<Rightarrow> Some (char_of (16 * x + y) # s)
      | _ \<Rightarrow> None)"

fun digits :: "nat \<Rightarrow> string" where
  "digits n = (if n < 10 then [char_of (48 + n)] else digits (n div 10) @ [char_of (48 + n mod 10)])"

declare digits.simps [simp del]

fun join_with :: "char \<Rightarrow> string list \<Rightarrow> string" where
  "join_with c [] = []"
| "join_with c [x] = x"
| "join_with c (x # y # zs) = x @ c # join_with c (y # zs)"

fun split_on :: "char \<Rightarrow> string \<Rightarrow> string list" where
  "split_on c [] = [[]]"
| "split_on c (x # r) =
     (if x = c then [] # split_on c r
      else (case split_on c r of [] \<Rightarrow> [[x]] | y # ys \<Rightarrow> (x # y) # ys))"

definition picture_field :: "string option \<Rightarrow> string" where
  "picture_field p = (case p of None \<Rightarrow> ''-'' | Some url \<Rightarrow> CHR ''+'' # hex url)"

definition read_picture :: "string \<Rightarrow> string option option" where
  "read_picture s =
     (if s = ''-'' then Some None
      else if s \<noteq> [] \<and> hd s = CHR ''+'' then map_option Some (unhex (tl s))
      else None)"

definition token_header :: string where
  "token_header = ''eyJhbGciOiJIUzI1NiIsInR5cCI6IkpXVCJ9''"

definition check_value :: "string \<Rightarrow> string \<Rightarrow> string" where
  "check_value key signed = hex (key @ signed)"

definition token_body :: "payload \<Rightarrow> nat \<Rightarrow> nat \<Rightarrow> string" where
  "token_body p issued_at expires =
     join_with CHR '','' [hex (sub p), hex (email p), hex (name p), picture_field (picture p),
                          digits issued_at, digits expires]"

definition ref_jwt_sign :: "payload \<Rightarrow> string \<Rightarrow> nat \<Rightarrow> nat \<Rightarrow> string" where
  "ref_jwt_sign p key ttl clock =
     (let b = token_body p clock (clock + ttl)
      in join_with CHR ''.'' [token_header, b, check_value key (token_header @ CHR ''.'' # b)])"

definition ref_jwt_verify :: "string \<Rightarrow> string \<Rightarrow> nat \<Rightarrow> jwt_error + claims" where
  "ref_jwt_verify token key clock =
     (case split_on CHR ''.'' token of
        [h, b, m] \<Rightarrow>
          (if h \<noteq> token_header \<or> m \<noteq> check_value key (h @ CHR ''.'' # b)
           then Inl JsonWebTokenError
           else case split_on CHR '','' b of
               [s, e, n, p, i, x] \<Rightarrow>
                 (case (unhex s, unhex e, unhex n, read_picture p) of
                    (Some s', Some e', Some n', Some p') \<Rightarrow>
                      if i = [] \<or> x = [] \<or> \<not> list_all is_digit (i @ x)
                      then Inl JsonWebTokenError
                      else if number x \<le> clock then Inl TokenExpiredError
                      else Inr \<lparr> sub = s', email = e', name = n', picture = p',
                                 iat = number i, exp = number x \<rparr>
                  | _ \<Rightarrow> Inl JsonWebTokenError)
             | _ \<Rightarrow> Inl JsonWebTokenError)
      | _ \<Rightarrow> Inl JsonWebTokenError)"

subsection \<open>String primitives on ASCII\<close>

definition ref_charAt :: "string \<Rightarrow> nat \<Rightarrow> string" where
  "ref_charAt s i = (if i < length s then [s ! i] else [])"

definition ref_toUpperCase :: "string \<Rightarrow> string" where
  "ref_toUpperCase s =
     map (\<lambda>c. if 97 \<le> (of_char c :: nat) \<and> (of_char c :: nat) \<le> 122
               then char_of ((of_char c :: nat) - 32) else c) s"

definition ref_lib :: lib where
  "ref_lib =
     \<lparr> JSON_parse = ref_JSON_parse, jwt_sign = ref_jwt_sign, jwt_verify = ref_jwt_verify,
       charAt = ref_charAt, toUpperCase = ref_toUpperCase \<rparr>"

subsection \<open>Example requests\<close>

definition example_env :: env where
  "example_env =
     \<lparr> NODE_ENV = Some ''production'', DESKTOP_SCHEME = None, JWT_SECRET = Some ''s3cret'',
       WORKOS_CLIENT_ID = Some ''client_01'' \<rparr>"

definition example_user :: user where
  "example_user =
     \<lparr> user_id = ''u1'', user_email = ''a@b.com'', firstName = None, lastName = None,
       profilePictureUrl = None \<rparr>"




definition example_provider :: "string option \<Rightarrow> string \<Rightarrow> string + user" where
  "example_provider clientId code =
     (if code = ''good'' then Inr example_user else Inl ''invalid_grant'')"

definition web_state :: string where
  \<open>web_state = ''{"n":"abc","device_id":null,"source":"web"}''\<close>

definition desktop_state :: string where
  \<open>desktop_state = ''{"n":"abc","device_id":"abc123","source":"desktop"}''\<close>

definition web_request :: request where
  "web_request =
     \<lparr> query_code = Some ''good'', query_state = Some web_state,
       cookies = [''oauth_nonce'' \<mapsto> ''abc''], authorization = None \<rparr>"


definition forged_request :: request where
  "forged_request =
     \<lparr> query_code = Some ''good'', query_state = Some desktop_state,
       cookies = [''oauth_nonce'' \<mapsto> ''xyz''], authorization = None \<rparr>"

definition codeless_request :: request where
  "codeless_request =
     \<lparr> query_code = None, query_state = Some desktop_state,
       cookies = Map.empty, authorization = None \<rparr>"

text \<open>A request to \<^verbatim>\<open>/api/me\<close> that presents the token of the example user as Bearer token.\<close>

definition example_header :: string where
  "example_header = ''Bearer '' @ signToken ref_lib example_env 1000 example_user"

definition bearer_request :: "(string \<Rightarrow> string option) \<Rightarrow> request" where
  "bearer_request cs =
     \<lparr> query_code = None, query_state = None, cookies = cs,
       authorization = Some example_header \<rparr>"

section \<open>The reference implementations meet what the handlers rely on\<close>

lemma hex_table:
  "\<forall>n\<in>set [0 ..< 16].
     digit_val (hex_digit n) = Some n \<and> hex_digit n \<noteq> CHR ''.'' \<and> hex_digit n \<noteq> CHR '',''
     \<and> unreserved (hex_digit n)"
  by code_simp

lemma hex_digit_facts:
  "digit_val (hex_digit n) = Some (n mod 16)" "hex_digit n \<noteq> CHR ''.''"
  "unreserved (hex_digit n)" "hex_digit n \<noteq> CHR '',''"
proof -
  have "n mod 16 \<in> set [0 ..< 16]" by simp
  then have "digit_val (hex_digit (n mod 16)) = Some (n mod 16) \<and>
             hex_digit (n mod 16) \<noteq> CHR ''.'' \<and> hex_digit (n mod 16) \<noteq> CHR '','' \<and>
             unreserved (hex_digit (n mod 16))"
    using hex_table by blast
  then show "digit_val (hex_digit n) = Some (n mod 16)" "hex_digit n \<noteq> CHR ''.''"
    "unreserved (hex_digit n)" "hex_digit n \<noteq> CHR '',''"
    by (simp_all add: hex_digit_def)
qed

lemma nibbles: "(x::nat) < 256 \<Longrightarrow> 16 * (x div 16 mod 16) + x mod 16 = x"
proof -
  assume "x < 256"
  then have "x div 16 < 16" by (simp add: div_less_iff_less_mult)
  then show ?thesis by simp
qed

lemma byte_recompose: "char_of (16 * (of_char c div 16 mod 16) + of_char c mod 16 :: nat) = c"
proof -
  have "(of_char c :: nat) < 256" by simp
  then show ?thesis by (simp only: nibbles char_of_char)
qed

lemma unhex_hex: "unhex (hex s) = Some s"
  by (induction s) (simp_all add: hex_def hex_digit_facts(1) byte_recompose)

lemma hex_inject: "hex a = hex b \<Longrightarrow> a = b"
proof -
  assume "hex a = hex b"
  then have "unhex (hex a) = unhex (hex b)" by simp
  then show "a = b" by (simp add: unhex_hex)
qed

lemma hex_no_sep: "CHR ''.'' \<notin> set (hex s)" "CHR '','' \<notin> set (hex s)"
  by (induction s)
    (simp_all add: hex_def hex_digit_facts(2) [symmetric] hex_digit_facts(4) [symmetric])

lemma digit_char:
  "k < 10 \<Longrightarrow> is_digit (char_of (48 + k :: nat)) \<and> (of_char (char_of (48 + k :: nat)) :: nat) = 48 + k"
  by (simp add: is_digit_def)

lemma number_snoc: "number (s @ [c]) = 10 * number s + (of_char c - 48)"
  by (simp add: number_def)

lemma number_digits: "number (digits n) = n"
proof (induction n rule: digits.induct)
  case (1 n)
  show ?case
  proof (cases "n < 10")
    case True
    then show ?thesis
      using digit_char [of n] by (simp add: number_def digits.simps [of n])
  next
    case False
    have m: "n mod 10 < 10" by simp
    from False 1 have "number (digits (n div 10)) = n div 10" by simp
    with False show ?thesis
      using digit_char [OF m] by (simp add: number_snoc digits.simps [of n])
  qed
qed

lemma digits_are_digits: "list_all is_digit (digits n)"
proof (induction n rule: digits.induct)
  case (1 n)
  have m: "n mod 10 < 10" by simp
  show ?case
  proof (cases "n < 10")
    case True
    then show ?thesis
      using digit_char [of n] by (simp add: digits.simps [of n])
  next
    case False
    with 1 show ?thesis
      using digit_char [OF m] by (simp add: digits.simps [of n])
  qed
qed

lemma digit_not_sep: "is_digit c \<Longrightarrow> c \<noteq> CHR ''.'' \<and> c \<noteq> CHR '',''"
  by (auto simp: is_digit_def)

lemma digits_no_sep: "CHR ''.'' \<notin> set (digits n)" "CHR '','' \<notin> set (digits n)"
  using digits_are_digits [of n] digit_not_sep by (auto simp: list_all_iff)

lemma digits_nonempty: "digits n \<noteq> []"
  by (simp add: digits.simps [of n])

lemma split_on_plain: "c \<notin> set x \<Longrightarrow> split_on c x = [x]"
  by (induction x) auto

lemma split_on_field: "c \<notin> set x \<Longrightarrow> split_on c (x @ c # r) = x # split_on c r"
  by (induction x) auto

lemma split_join:
  "xs \<noteq> [] \<Longrightarrow> \<forall>x\<in>set xs. c \<notin> set x \<Longrightarrow> split_on c (join_with c xs) = xs"
  by (induction c xs rule: join_with.induct) (simp_all add: split_on_plain split_on_field)

lemma split_on_nonempty: "split_on c s \<noteq> []"
  by (induction s) (auto split: list.splits)

lemma length_split_on: "length (split_on c s) = Suc (length (filter (\<lambda>x. x = c) s))"
  by (induction s) (auto simp: split_on_nonempty split: list.splits)

lemma join_no_sep: "\<forall>x\<in>set xs. d \<notin> set x \<Longrightarrow> d \<noteq> c \<Longrightarrow> d \<notin> set (join_with c xs)"
  by (induction c xs rule: join_with.induct) auto

lemma picture_field_no_sep:
  "CHR ''.'' \<notin> set (picture_field p)" "CHR '','' \<notin> set (picture_field p)"
  by (cases p; simp add: picture_field_def hex_no_sep)+

lemma read_picture_field: "read_picture (picture_field p) = Some p"
  by (cases p) (simp_all add: picture_field_def read_picture_def unhex_hex)

lemma header_no_dot: "CHR ''.'' \<notin> set token_header"
  by (simp add: token_header_def)

lemma token_body_no_dot: "CHR ''.'' \<notin> set (token_body p t e)"
  unfolding token_body_def
  by (intro join_no_sep) (simp_all add: hex_no_sep picture_field_no_sep digits_no_sep)

lemma token_body_fields:
  "split_on CHR '','' (token_body p t e) =
     [hex (sub p), hex (email p), hex (name p), picture_field (picture p), digits t, digits e]"
  unfolding token_body_def
  by (intro split_join) (simp_all add: hex_no_sep picture_field_no_sep digits_no_sep)

lemma ref_token_parts:
  "split_on CHR ''.'' (ref_jwt_sign p key ttl t) =
     [token_header, token_body p t (t + ttl),
      check_value key (token_header @ CHR ''.'' # token_body p t (t + ttl))]"
proof -
  let ?b = "token_body p t (t + ttl)"
  have "\<forall>x\<in>set [token_header, ?b, check_value key (token_header @ CHR ''.'' # ?b)].
          CHR ''.'' \<notin> set x"
    by (simp add: header_no_dot check_value_def hex_no_sep token_body_no_dot)
  then have "split_on CHR ''.''
          (join_with CHR ''.'' [token_header, ?b, check_value key (token_header @ CHR ''.'' # ?b)]) =
        [token_header, ?b, check_value key (token_header @ CHR ''.'' # ?b)]"
    by (intro split_join) simp_all
  then show ?thesis by (simp add: ref_jwt_sign_def Let_def)
qed

lemma ref_verify_own_key:
  "ref_jwt_verify (ref_jwt_sign p key ttl t) key now =
     (if now < t + ttl
      then Inr \<lparr> sub = sub p, email = email p, name = name p, picture = picture p,
                 iat = t, exp = t + ttl \<rparr>
      else Inl TokenExpiredError)"
  by (simp add: ref_jwt_verify_def ref_token_parts token_body_fields unhex_hex read_picture_field
      digits_nonempty digits_are_digits number_digits not_less)

lemma ref_verify_other_key:
  "key' \<noteq> key \<Longrightarrow> ref_jwt_verify (ref_jwt_sign p key ttl t) key' now = Inl JsonWebTokenError"
  by (auto simp: ref_jwt_verify_def ref_token_parts check_value_def dest: hex_inject)

lemma ref_verify_malformed:
  assumes "length (filter (\<lambda>c. c = CHR ''.'') token) \<noteq> 2"
  shows "ref_jwt_verify token key now = Inl JsonWebTokenError"
proof -
  have "length (split_on CHR ''.'' token) \<noteq> 3"
    using assms by (simp add: length_split_on)
  then show ?thesis
    by (auto simp: ref_jwt_verify_def split: list.splits)
qed

lemma jwt_contract_ref: "jwt_contract ref_lib"
  unfolding jwt_contract_def
  by (simp add: ref_lib_def ref_verify_own_key ref_verify_other_key ref_verify_malformed)

lemma ref_token_nonempty: "signToken ref_lib cfg t u \<noteq> []"
  by (simp add: signToken_def ref_lib_def ref_jwt_sign_def Let_def)

lemma verify_garbage: "verifyToken ref_lib example_env 1000 ''garbage'' = None"
  by (simp add: verifyToken_def ref_lib_def ref_jwt_verify_def)

lemma parse_desktop_state:
  "JSON_parse ref_lib desktop_state =
     Some (Object [(''source'', String ''desktop''), (''device_id'', String ''abc123''),
                   (''n'', String ''abc'')])"
  by code_simp

lemma read_state_web:
  "read_state ref_lib web_request = Checked \<lparr> source = String ''web'', device_id = Null \<rparr>"
  by code_simp


lemma read_state_forged: "read_state ref_lib forged_request = Mismatch"
  by code_simp




section \<open>Helpers\<close>

lemma JWT_KEY_nonempty: "JWT_KEY e \<noteq> []"
  by (cases "JWT_SECRET e") (simp_all add: JWT_KEY_def)

lemma set_replace_all: "set (replace_all c r s) \<subseteq> (set s - {c}) \<union> set r"
  by (induction s) (auto simp: replace_all_def)

lemma esc_no_markup: "x \<in> set (esc s) \<Longrightarrow> \<not> markup x"
  unfolding esc_def markup_def
  by (auto split: if_splits dest!: set_mp [OF set_replace_all])

lemma skeleton_esc: "skeleton (esc s) = []"
  using esc_no_markup by (auto simp: skeleton_def filter_empty_conv)

lemma skeleton_append: "skeleton (a @ b) = skeleton a @ skeleton b"
  by (simp add: skeleton_def)

lemma esc_script: \<open>esc ''<script>alert(1)</script>'' = ''&lt;script&gt;alert(1)&lt;/script&gt;''\<close>
  by (simp add: esc_def replace_all_def)

lemma replace_all_Nil: "replace_all c r [] = []"
  by (simp add: replace_all_def)

lemma replace_all_append: "replace_all c r (a @ b) = replace_all c r a @ replace_all c r b"
  by (simp add: replace_all_def)

lemma replace_all_Cons: "replace_all c r (x # s) = (if x = c then r else [x]) @ replace_all c r s"
  by (simp add: replace_all_def)

text \<open>The five replacements of \<^verbatim>\<open>esc\<close>, one after the other, on one character.\<close>

lemma replacements_entity:
  \<open>replace_all (CHR 0x27) ''&#39;''
     (replace_all (CHR 0x22) ''&quot;''
       (replace_all CHR ''>'' ''&gt;''
         (replace_all CHR ''<'' ''&lt;''
           (replace_all CHR ''&'' ''&amp;'' [x])))) = entity x\<close>
  by (simp add: replace_all_def entity_def)

lemma replacements_html_escaped:
  \<open>replace_all (CHR 0x27) ''&#39;''
     (replace_all (CHR 0x22) ''&quot;''
       (replace_all CHR ''>'' ''&gt;''
         (replace_all CHR ''<'' ''&lt;''
           (replace_all CHR ''&'' ''&amp;'' s)))) = html_escaped s\<close>
proof (induction s)
  case Nil
  show ?case by (simp add: replace_all_Nil html_escaped_def)
next
  case (Cons x s)
  have "x # s = [x] @ s" by simp
  then show ?case
    using Cons replacements_entity [of x]
    by (simp only: replace_all_append) (simp add: html_escaped_def)
qed

lemma esc_html_escaped: "esc s = html_escaped s"
  by (simp add: esc_def replacements_html_escaped) (simp add: html_escaped_def)


lemma skeleton_html_escaped: "skeleton (html_escaped s) = []"
  using skeleton_esc [of s] by (simp add: esc_html_escaped)

lemma takeWhile_local: "c \<notin> set l \<Longrightarrow> takeWhile (\<lambda>x. x \<noteq> c) (l @ c # d) = l"
  by (induction l) auto







lemma verify_signed:
  assumes "jwt_contract L" "now < clock + 2592000"
  shows "verifyToken L cfg now (signToken L cfg clock u) =
           Some \<lparr> sub = user_id u, email = user_email u, name = name (token_payload u),
                   picture = picture (token_payload u), iat = clock, exp = clock + 2592000 \<rparr>"
  using assms JWT_KEY_nonempty [of cfg]
  by (simp add: jwt_contract_def verifyToken_def signToken_def token_payload_def expiresIn_def)

text \<open>The three ways out of the inner \<^verbatim>\<open>try\<close> block.\<close>

lemma read_state_absent:
  "\<not> truthy (query_state req) \<Longrightarrow>
     read_state L req = Checked \<lparr> source = String ''desktop'', device_id = Null \<rparr>"
  by (simp add: read_state_def)

lemma read_state_malformed:
  "query_state req = Some st \<Longrightarrow> JSON_parse L st = None \<Longrightarrow>
     read_state L req = Checked \<lparr> source = String ''desktop'', device_id = Null \<rparr>"
  by (simp add: read_state_def Let_def)

lemma read_state_match:
  assumes "query_state req = Some st" "st \<noteq> []" "JSON_parse L st = Some parsed"
    and "get_prop parsed ''n'' = Some (String nonce)"
    and "cookies req ''oauth_nonce'' = Some nonce" "nonce \<noteq> []"
    and "get_prop parsed ''source'' = Some s" "get_prop parsed ''device_id'' = Some d"
  shows "read_state L req =
           Checked \<lparr> source = js_or s (String ''desktop''), device_id = js_or d Null \<rparr>"
  using assms by (simp add: read_state_def Let_def)

lemma read_state_mismatch:
  assumes "query_state req = Some st" "st \<noteq> []" "JSON_parse L st = Some parsed"
    and "get_prop parsed ''n'' = Some nonce"
    and "map_option String (cookies req ''oauth_nonce'') \<noteq> Some nonce"
  shows "read_state L req = Mismatch"
  using assms by (auto simp: read_state_def Let_def split: option.splits)

text \<open>
  The directive that clears the nonce cookie is on every response that follows a passed or
  skipped check, also on the 500 of a failed exchange, and on none that follows a mismatch.
\<close>

lemma nonce_cleared_when_checked:
  assumes "truthy (query_code req)" "read_state L req = Checked context"
  shows "nonce_clear \<in> set (cookies_out (auth_callback L cfg provider clock req))"
  using assms by (simp add: auth_callback_def Let_def split: sum.splits)

lemma nonce_kept_on_mismatch:
  assumes "truthy (query_code req)" "read_state L req = Mismatch"
  shows "cookies_out (auth_callback L cfg provider clock req) = []"
  using assms by (simp add: auth_callback_def)

section \<open>The claims\<close>

subsection \<open>C1: a nonce mismatch is rejected\<close>

text \<open>
  Claim C1, as stated, at a concrete request: the state parses and carries the nonce
  \<^verbatim>\<open>abc\<close>, there is no nonce cookie, and the request has no \<^verbatim>\<open>code\<close>. The handler tests
  the code first and answers 400, not 403.
\<close>

theorem csrf_check_after_code_counterexample:
  "query_state codeless_request = Some desktop_state
   \<and> JSON_parse ref_lib desktop_state =
       Some (Object [(''source'', String ''desktop''), (''device_id'', String ''abc123''),
                     (''n'', String ''abc'')])
   \<and> get_prop (Object [(''source'', String ''desktop''), (''device_id'', String ''abc123''),
                        (''n'', String ''abc'')]) ''n'' = Some (String ''abc'')
   \<and> cookies codeless_request ''oauth_nonce'' = None
   \<and> status (auth_callback ref_lib example_env example_provider 1000 codeless_request) = 400
   \<and> status (auth_callback ref_lib example_env example_provider 1000 codeless_request) \<noteq> 403"
  using parse_desktop_state
  by (simp add: codeless_request_def auth_callback_def)

text \<open>
  Claim C1, amended: for every callback request with a non-empty \<^verbatim>\<open>code\<close> whose non-empty
  \<^verbatim>\<open>state\<close> parses as JSON to a value with a property \<^verbatim>\<open>n\<close> (the nonce, or
  \<^verbatim>\<open>undefined\<close>), if the nonce cookie is absent or is not that nonce, the response is 403
  with the CSRF message; the provider is not called and no token is signed, whatever the
  provider would have answered for the code.
\<close>

theorem csrf_mismatch_rejected:
  assumes "truthy (query_code req)"
    and "query_state req = Some st" "st \<noteq> []" "JSON_parse L st = Some parsed"
    and "get_prop parsed ''n'' = Some nonce"
    and "map_option String (cookies req ''oauth_nonce'') \<noteq> Some nonce"
  shows "auth_callback L cfg provider clock req =
           \<lparr> status = 403, cookies_out = [], body = Send csrf_message,
             exchanges = [], issued = [] \<rparr>"
  using assms(1) read_state_mismatch [OF assms(2-6)]
  by (simp add: auth_callback_def)

text \<open>The amended claim at a request whose cookie holds another nonce than its state.\<close>

theorem csrf_mismatch_rejected_witness:
  "truthy (query_code forged_request)
   \<and> query_state forged_request = Some desktop_state \<and> desktop_state \<noteq> []
   \<and> JSON_parse ref_lib desktop_state =
       Some (Object [(''source'', String ''desktop''), (''device_id'', String ''abc123''),
                     (''n'', String ''abc'')])
   \<and> get_prop (Object [(''source'', String ''desktop''), (''device_id'', String ''abc123''),
                        (''n'', String ''abc'')]) ''n'' = Some (String ''abc'')
   \<and> map_option String (cookies forged_request ''oauth_nonce'') \<noteq> Some (String ''abc'')
   \<and> auth_callback ref_lib example_env example_provider 1000 forged_request =
       \<lparr> status = 403, cookies_out = [], body = Send csrf_message, exchanges = [], issued = [] \<rparr>"
proof -
  have 1: "truthy (query_code forged_request)"
    by (simp add: forged_request_def)
  have 2: "query_state forged_request = Some desktop_state"
    by (simp add: forged_request_def)
  have 3: "desktop_state \<noteq> []"
    by (simp add: desktop_state_def)
  have 5: "get_prop (Object [(''source'', String ''desktop''), (''device_id'', String ''abc123''),
                             (''n'', String ''abc'')]) ''n'' = Some (String ''abc'')"
    by simp
  have 6: "map_option String (cookies forged_request ''oauth_nonce'') \<noteq> Some (String ''abc'')"
    by (simp add: forged_request_def)
  from csrf_mismatch_rejected [OF 1 2 3 parse_desktop_state 5 6] 1 2 3 parse_desktop_state 5 6
  show ?thesis by simp
qed

subsection \<open>C2: the token round trip\<close>




subsection \<open>C3: a callback without a code\<close>

text \<open>
  Claim C3: a callback request with no \<^verbatim>\<open>code\<close> parameter (or an empty one) is answered
  with status 400 and the message \<^verbatim>\<open>Missing authorization code from WorkOS\<close>; the list of
  provider exchanges is empty, no cookie is touched and no token is signed.
\<close>

theorem missing_code_rejected:
  assumes "query_code req = None \<or> query_code req = Some []"
  shows "auth_callback L cfg provider clock req =
           \<lparr> status = 400, cookies_out = [],
             body = Send ''Missing authorization code from WorkOS'',
             exchanges = [], issued = [] \<rparr>"
  using assms by (auto simp: auth_callback_def)

theorem missing_code_rejected_witness:
  "query_code codeless_request = None
   \<and> auth_callback ref_lib example_env example_provider 1000 codeless_request =
       \<lparr> status = 400, cookies_out = [],
         body = Send ''Missing authorization code from WorkOS'',
         exchanges = [], issued = [] \<rparr>"
  using missing_code_rejected [of codeless_request ref_lib example_env example_provider 1000]
  by (simp add: codeless_request_def)

subsection \<open>C4: delivery to the web\<close>

text \<open>
  Claim C4: when the code is there, the nonce check leaves a flow context whose source is
  \<^verbatim>\<open>web\<close>, and the provider returns a user, the response is a redirect (302) to
  \<^verbatim>\<open>/account\<close>; it clears the nonce cookie and sets the session cookie \<^verbatim>\<open>deskly_token\<close> to
  the signed token with a max-age of 30 days (2592000000 ms), HTTP-only, \<^verbatim>\<open>SameSite=Lax\<close>,
  secure in production. The body is not the deep-link page and the redirect target does not
  contain the token.
\<close>

theorem web_callback_redirects:
  assumes "truthy (query_code req)"
    and "read_state L req = Checked context" "source context = String ''web''"
    and "provider (WORKOS_CLIENT_ID cfg) (the (query_code req)) = Inr u"
  shows "auth_callback L cfg provider clock req =
           \<lparr> status = 302,
             cookies_out =
               [Clear_Cookie ''oauth_nonce''
                  \<lparr> httpOnly = False, secure = False, sameSite = None, maxAge = None,
                    path = Some ''/auth/callback'' \<rparr>,
                Set_Cookie ''deskly_token'' (signToken L cfg clock u)
                  \<lparr> httpOnly = True, secure = isProduction cfg, sameSite = Some ''lax'',
                    maxAge = Some 2592000000, path = None \<rparr>],
             body = Redirect ''/account'',
             exchanges = [the (query_code req)],
             issued = [signToken L cfg clock u] \<rparr>"
  using assms by (simp add: auth_callback_def nonce_clear_def session_cookie_def Let_def)

theorem web_callback_redirects_witness:
  "truthy (query_code web_request)
   \<and> read_state ref_lib web_request = Checked \<lparr> source = String ''web'', device_id = Null \<rparr>
   \<and> example_provider (WORKOS_CLIENT_ID example_env) (the (query_code web_request)) =
       Inr example_user
   \<and> status (auth_callback ref_lib example_env example_provider 1000 web_request) = 302
   \<and> body (auth_callback ref_lib example_env example_provider 1000 web_request) =
       Redirect ''/account''"
proof -
  have 1: "truthy (query_code web_request)"
    by (simp add: web_request_def)
  have 3: "source \<lparr> source = String ''web'', device_id = Null \<rparr> = String ''web''"
    by simp
  have 4: "example_provider (WORKOS_CLIENT_ID example_env) (the (query_code web_request)) =
           Inr example_user"
    by (simp add: example_provider_def web_request_def)
  from web_callback_redirects [where provider = example_provider and cfg = example_env
      and req = web_request and clock = 1000, OF 1 read_state_web 3 4] 1 read_state_web 4
  show ?thesis by simp
qed

subsection \<open>C5: delivery to the desktop application\<close>




subsection \<open>C6: the nonce cookie after the check\<close>

text \<open>
  Claim C6 says that the nonce cookie is cleared after the check whether or not the nonce
  matched. At this request the cookie holds \<^verbatim>\<open>xyz\<close> and the state the nonce \<^verbatim>\<open>abc\<close>: the
  handler returns its 403 from inside the \<^verbatim>\<open>try\<close> block, before the statement that clears
  the cookie, and the response carries no cookie directive at all.
\<close>

theorem nonce_cookie_survives_mismatch:
  "query_code forged_request = Some ''good''
   \<and> cookies forged_request ''oauth_nonce'' = Some ''xyz''
   \<and> read_state ref_lib forged_request = Mismatch
   \<and> auth_callback ref_lib example_env example_provider 1000 forged_request =
       \<lparr> status = 403, cookies_out = [], body = Send csrf_message, exchanges = [], issued = [] \<rparr>
   \<and> nonce_clear \<notin>
       set (cookies_out (auth_callback ref_lib example_env example_provider 1000 forged_request))"
  using read_state_forged by (simp add: auth_callback_def forged_request_def)

subsection \<open>C7: interpolated strings are escaped\<close>

text \<open>
  Claim C7: \<^verbatim>\<open>esc\<close> computes the HTML-escaped form (\<open>html_escaped\<close>: every \<^verbatim>\<open>&\<close>,
  \<^verbatim>\<open><\<close>, \<^verbatim>\<open>>\<close>, \<^verbatim>\<open>"\<close>, \<^verbatim>\<open>'\<close> replaced by its entity, so that \<^verbatim>\<open><script>\<close> becomes
  \<^verbatim>\<open>&lt;script&gt;\<close>). The desktop page is its template with the escaped forms of display
  name, email and deep link in its six holes; the account page is its template with the
  escaped forms of picture URL (or initial), name, email and subject; the error page is its
  template with the escaped error message, or the fixed message in production. The escaped
  form contains none of \<^verbatim>\<open><\<close>, \<^verbatim>\<open>>\<close>, \<^verbatim>\<open>"\<close>, \<^verbatim>\<open>'\<close>, so the markup characters of a
  rendered page are those of its template, in the template's order, whatever the
  interpolated strings are: a name containing \<^verbatim>\<open><script>\<close> adds no tag.
\<close>

theorem pages_escape_interpolations:
  \<open>esc s = html_escaped s
   \<and> esc ''<script>alert(1)</script>'' = ''&lt;script&gt;alert(1)&lt;/script&gt;''
   \<and> desktopCallbackPage u deepLink =
       desktop_head @ desktop_body_0 @
       html_escaped (if truthy (firstName u)
                     then the (firstName u) @
                          (if truthy (lastName u) then '' '' @ the (lastName u) else [])
                     else user_email u) @
       desktop_body_1 @ html_escaped (user_email u) @
       desktop_body_2 @ html_escaped deepLink @
       desktop_body_3 @ html_escaped deepLink @
       desktop_body_4 @ html_escaped deepLink @
       desktop_body_5 @ html_escaped deepLink @
       desktop_body_6
   \<and> accountPage L c =
       account_head @ account_body_0 @
       (if truthy (picture c)
        then avatar_img_0 @ html_escaped (the (picture c)) @ avatar_img_1
        else html_escaped (if toUpperCase L (charAt L (name c) 0) \<noteq> []
                           then toUpperCase L (charAt L (name c) 0) else ''?'')) @
       account_body_1 @ html_escaped (if name c \<noteq> [] then name c else ''Deskly User'') @
       account_body_2 @ html_escaped (email c) @
       account_body_3 @ html_escaped (sub c) @
       account_body_4
   \<and> errorHandler cfg msg =
       error_page_0 @
       (if isProduction cfg then ''An unexpected error occurred. Please try again later.''
        else html_escaped (if msg \<noteq> [] then msg else ''Unknown error'')) @
       error_page_1
   \<and> skeleton (html_escaped s) = []
   \<and> skeleton (desktopCallbackPage u deepLink) =
       skeleton (desktop_head @ desktop_body_0 @ desktop_body_1 @ desktop_body_2 @
                 desktop_body_3 @ desktop_body_4 @ desktop_body_5 @ desktop_body_6)
   \<and> skeleton (accountPage L c) =
       skeleton (account_head @ account_body_0 @
                 (if truthy (picture c) then avatar_img_0 @ avatar_img_1 else []) @
                 account_body_1 @ account_body_2 @ account_body_3 @ account_body_4)
   \<and> skeleton (errorHandler cfg msg) = skeleton (error_page_0 @ error_page_1)\<close>
proof -
  have example: \<open>esc ''<script>alert(1)</script>'' = ''&lt;script&gt;alert(1)&lt;/script&gt;''\<close>
    by (rule esc_script)
  have message: "skeleton ''An unexpected error occurred. Please try again later.'' = []"
    by (simp add: skeleton_def markup_def)
  have empty: "skeleton [] = []"
    by (simp add: skeleton_def)
  show ?thesis
    unfolding example
    by (simp add: desktopCallbackPage_def accountPage_def errorHandler_def Let_def
        esc_html_escaped skeleton_append skeleton_html_escaped message empty)
qed

subsection \<open>C8: /api/me without a valid token\<close>

text \<open>
  Claim C8: a request to \<^verbatim>\<open>/api/me\<close> with no \<^verbatim>\<open>Authorization\<close> header that begins with
  \<^verbatim>\<open>Bearer \<close> and no \<^verbatim>\<open>deskly_token\<close> cookie is answered 401 with the error
  \<^verbatim>\<open>Missing token\<close>; a request whose token, from the header or else from the cookie, fails
  verification is answered 401 with the error \<^verbatim>\<open>Invalid or expired token\<close>. Neither body
  holds claims.
\<close>

theorem api_me_unauthorized:
  "((\<forall>h. authorization req = Some h \<longrightarrow> \<not> prefix ''Bearer '' h)
      \<and> cookies req ''deskly_token'' = None
      \<longrightarrow> api_me L cfg clock req =
            \<lparr> status = 401, cookies_out = [], body = Json_error ''Missing token'',
              exchanges = [], issued = [] \<rparr>)
   \<and> ((authorization req = Some (''Bearer '' @ token)
         \<or> (\<forall>h. authorization req = Some h \<longrightarrow> \<not> prefix ''Bearer '' h)
           \<and> cookies req ''deskly_token'' = Some token)
        \<and> token \<noteq> [] \<and> verifyToken L cfg clock token = None
      \<longrightarrow> api_me L cfg clock req =
            \<lparr> status = 401, cookies_out = [], body = Json_error ''Invalid or expired token'',
              exchanges = [], issued = [] \<rparr>)"
  by (auto simp: api_me_def bearer_or_cookie_def Let_def split: option.splits)

theorem api_me_unauthorized_witness:
  "api_me ref_lib example_env 1000
      \<lparr> query_code = None, query_state = None, cookies = Map.empty, authorization = None \<rparr> =
     \<lparr> status = 401, cookies_out = [], body = Json_error ''Missing token'',
       exchanges = [], issued = [] \<rparr>
   \<and> verifyToken ref_lib example_env 1000 ''garbage'' = None
   \<and> api_me ref_lib example_env 1000
      \<lparr> query_code = None, query_state = None, cookies = Map.empty,
        authorization = Some ''Bearer garbage'' \<rparr> =
     \<lparr> status = 401, cookies_out = [], body = Json_error ''Invalid or expired token'',
       exchanges = [], issued = [] \<rparr>
   \<and> api_me ref_lib example_env 1000
      \<lparr> query_code = None, query_state = None, cookies = [''deskly_token'' \<mapsto> ''garbage''],
        authorization = None \<rparr> =
     \<lparr> status = 401, cookies_out = [], body = Json_error ''Invalid or expired token'',
       exchanges = [], issued = [] \<rparr>"
  using api_me_unauthorized
          [where req = "\<lparr> query_code = None, query_state = None, cookies = Map.empty,
                          authorization = None \<rparr>"
             and L = ref_lib and cfg = example_env and clock = 1000 and token = "[]"]
        api_me_unauthorized
          [where req = "\<lparr> query_code = None, query_state = None, cookies = Map.empty,
                          authorization = Some ''Bearer garbage'' \<rparr>"
             and token = "''garbage''" and L = ref_lib and cfg = example_env and clock = 1000]
        api_me_unauthorized
          [where req = "\<lparr> query_code = None, query_state = None,
                          cookies = [''deskly_token'' \<mapsto> ''garbage''], authorization = None \<rparr>"
             and token = "''garbage''" and L = ref_lib and cfg = example_env and clock = 1000]
        verify_garbage
  by simp

subsection \<open>C9: the display name\<close>

text \<open>
  Claim C9, as stated, at the user \<^verbatim>\<open>{id: "u1", email: "a@b.com"}\<close>, who has no first name:
  the name in the token is the local part \<^verbatim>\<open>a\<close>, but the desktop page greets with the whole
  address \<^verbatim>\<open>a@b.com\<close>, so it is not the page that shows the token's name.
\<close>

theorem desktop_page_name_counterexample:
  "\<not> truthy (firstName example_user)
   \<and> name (token_payload example_user) = ''a''
   \<and> desktopCallbackPage example_user [] =
       desktop_head @ desktop_body_0 @ ''a@b.com'' @ desktop_body_1 @ ''a@b.com'' @
       desktop_body_2 @ desktop_body_3 @ desktop_body_4 @ desktop_body_5 @ desktop_body_6
   \<and> desktopCallbackPage example_user [] \<noteq>
       desktop_head @ desktop_body_0 @ esc (name (token_payload example_user)) @
       desktop_body_1 @ esc (user_email example_user) @
       desktop_body_2 @ esc [] @ desktop_body_3 @ esc [] @ desktop_body_4 @ esc [] @
       desktop_body_5 @ esc [] @ desktop_body_6"
  by (simp add: example_user_def token_payload_def split_first_def desktopCallbackPage_def
      esc_def replace_all_def desktop_body_1_def)

text \<open>
  Claim C9, amended: the name in the payload that \<^verbatim>\<open>signToken\<close> signs is the first name,
  followed by a space and the last name when there is one, when there is a first name;
  otherwise it is the part of the email before its first \<^verbatim>\<open>@\<close>. The desktop page shows that
  same name when there is a first name, and otherwise the whole email address.
\<close>

theorem display_name_resolution:
  "(firstName u = Some f \<and> f \<noteq> [] \<and> lastName u = Some l \<and> l \<noteq> []
      \<longrightarrow> name (token_payload u) = f @ '' '' @ l)
   \<and> (firstName u = Some f \<and> f \<noteq> [] \<and> \<not> truthy (lastName u)
      \<longrightarrow> name (token_payload u) = f)
   \<and> (\<not> truthy (firstName u) \<and> user_email u = local @ CHR ''@'' # domain
       \<and> CHR ''@'' \<notin> set local
      \<longrightarrow> name (token_payload u) = local)
   \<and> signToken L cfg clock u = jwt_sign L (token_payload u) (JWT_KEY cfg) 2592000 clock
   \<and> desktopCallbackPage u deepLink =
       desktop_head @ desktop_body_0 @
       esc (if truthy (firstName u) then name (token_payload u) else user_email u) @
       desktop_body_1 @ esc (user_email u) @
       desktop_body_2 @ esc deepLink @
       desktop_body_3 @ esc deepLink @
       desktop_body_4 @ esc deepLink @
       desktop_body_5 @ esc deepLink @
       desktop_body_6"
  by (auto simp: token_payload_def split_first_def takeWhile_local signToken_def expiresIn_def
      desktopCallbackPage_def Let_def)

theorem display_name_resolution_witness:
  "\<not> truthy (firstName example_user)
   \<and> user_email example_user = ''a'' @ CHR ''@'' # ''b.com'' \<and> CHR ''@'' \<notin> set ''a''
   \<and> name (token_payload example_user) = ''a''
   \<and> name (token_payload (example_user \<lparr> firstName := Some ''Ada'' \<rparr>)) = ''Ada''
   \<and> name (token_payload
             (example_user \<lparr> firstName := Some ''Ada'', lastName := Some ''Lovelace'' \<rparr>)) =
       ''Ada Lovelace''"
  using display_name_resolution
          [where u = example_user and local = "''a''" and domain = "''b.com''"]
        display_name_resolution
          [where u = "example_user \<lparr> firstName := Some ''Ada'' \<rparr>" and f = "''Ada''"]
        display_name_resolution
          [where u = "example_user \<lparr> firstName := Some ''Ada'', lastName := Some ''Lovelace'' \<rparr>"
             and f = "''Ada''" and l = "''Lovelace''"]
  by (simp add: example_user_def)

subsection \<open>C10: the Bearer token takes precedence\<close>

text \<open>
  Claim C10: two requests to \<^verbatim>\<open>/api/me\<close> with the same \<^verbatim>\<open>Authorization\<close> header
  beginning with \<^verbatim>\<open>Bearer \<close> get the same response, whatever their cookies are: the
  \<^verbatim>\<open>deskly_token\<close> cookie is not read.
\<close>

theorem bearer_token_overrides_cookie:
  assumes "authorization r1 = Some h" "authorization r2 = Some h" "prefix ''Bearer '' h"
  shows "api_me L cfg clock r1 = api_me L cfg clock r2"
  using assms by (simp add: api_me_def bearer_or_cookie_def)

theorem bearer_token_overrides_cookie_witness:
  "authorization (bearer_request [''deskly_token'' \<mapsto> ''garbage'']) = Some example_header
   \<and> authorization (bearer_request Map.empty) = Some example_header
   \<and> prefix ''Bearer '' example_header
   \<and> api_me ref_lib example_env 5000 (bearer_request [''deskly_token'' \<mapsto> ''garbage'']) =
       api_me ref_lib example_env 5000 (bearer_request Map.empty)
   \<and> api_me ref_lib example_env 5000 (bearer_request Map.empty) =
       \<lparr> status = 200, cookies_out = [],
         body = Json_user \<lparr> sub = ''u1'', email = ''a@b.com'', name = ''a'', picture = None,
                            iat = 1000, exp = 2593000 \<rparr>,
         exchanges = [], issued = [] \<rparr>"
proof -
  have 1: "authorization (bearer_request [''deskly_token'' \<mapsto> ''garbage'']) = Some example_header"
    and 2: "authorization (bearer_request Map.empty) = Some example_header"
    by (simp_all add: bearer_request_def)
  have 3: "prefix ''Bearer '' example_header"
    by (simp add: example_header_def)
  have "verifyToken ref_lib example_env 5000 (signToken ref_lib example_env 1000 example_user) =
          Some \<lparr> sub = ''u1'', email = ''a@b.com'', name = ''a'', picture = None,
                  iat = 1000, exp = 2593000 \<rparr>"
    using verify_signed [OF jwt_contract_ref, of 5000 1000 example_env example_user]
    by (simp add: example_user_def token_payload_def split_first_def)
  then have 4: "api_me ref_lib example_env 5000 (bearer_request Map.empty) =
       \<lparr> status = 200, cookies_out = [],
         body = Json_user \<lparr> sub = ''u1'', email = ''a@b.com'', name = ''a'', picture = None,
                            iat = 1000, exp = 2593000 \<rparr>,
         exchanges = [], issued = [] \<rparr>"
    using ref_token_nonempty [of example_env 1000 example_user]
    by (simp add: api_me_def bearer_or_cookie_def bearer_request_def example_header_def)
  from bearer_token_overrides_cookie [OF 1 2 3, of ref_lib example_env 5000] 1 2 3 4
  show ?thesis by simp
qed

end
